theory Spec2Isabelle
  imports Main "HOL-Library.Word"
begin

section \<open>JavaScript strings\<close>

text \<open>
  A JavaScript string is a sequence of UTF-16 code units. The handlers of the Thread view
  use two built-ins on strings: \<^verbatim>\<open>String.prototype.trim\<close> (in the guards
  \<^verbatim>\<open>!input.trim()\<close> and \<^verbatim>\<open>!controlText.trim()\<close>) and \<^verbatim>\<open>JSON.stringify\<close> (for the
  content of the visualization request). Both are modelled on code units, following
  ECMA-262.
\<close>

type_synonym jsstring = "16 word list"

text \<open>A literal of the source, written as an Isabelle string of ASCII characters.\<close>

definition js :: "string \<Rightarrow> jsstring" where
  "js s = map (\<lambda>c. of_nat (of_char c)) s"

text \<open>
  ECMA-262 WhiteSpace (TAB, VT, FF, SP, NBSP, ZWNBSP and the category Zs) and
  LineTerminator (LF, CR, LS, PS): the code units that \<^verbatim>\<open>trim\<close> strips.
\<close>

definition isWhiteSpace :: "16 word \<Rightarrow> bool" where
  "isWhiteSpace c \<longleftrightarrow>
     c = 0x0009 \<or> c = 0x000A \<or> c = 0x000B \<or> c = 0x000C \<or> c = 0x000D \<or> c = 0x0020 \<or>
     c = 0x00A0 \<or> c = 0x1680 \<or> (0x2000 \<le> c \<and> c \<le> 0x200A) \<or> c = 0x2028 \<or> c = 0x2029 \<or>
     c = 0x202F \<or> c = 0x205F \<or> c = 0x3000 \<or> c = 0xFEFF"

definition trimStart :: "jsstring \<Rightarrow> jsstring" where
  "trimStart s = dropWhile isWhiteSpace s"

definition trimEnd :: "jsstring \<Rightarrow> jsstring" where
  "trimEnd s = rev (dropWhile isWhiteSpace (rev s))"

definition trim :: "jsstring \<Rightarrow> jsstring" where
  "trim s = trimEnd (trimStart s)"

text \<open>
  Truthiness of the values the guards test: a string is falsy exactly when it is empty,
  \<^verbatim>\<open>undefined\<close> and \<^verbatim>\<open>null\<close> (here \<open>None\<close>) are falsy.
\<close>

definition truthy :: "jsstring \<Rightarrow> bool" where
  "truthy s \<longleftrightarrow> s \<noteq> []"

definition truthy_opt :: "jsstring option \<Rightarrow> bool" where
  "truthy_opt v = (case v of None \<Rightarrow> False | Some s \<Rightarrow> truthy s)"

section \<open>JSON.stringify on an object of strings\<close>

text \<open>
  \<^verbatim>\<open>JSON.stringify\<close> of an object literal whose property values are strings or
  \<^verbatim>\<open>undefined\<close>: properties are written in insertion order, a property whose value is
  \<^verbatim>\<open>undefined\<close> is left out, keys and values go through QuoteJSONString.
\<close>

definition hexDigit :: "nat \<Rightarrow> 16 word" where
  "hexDigit n = (if n < 10 then 0x30 + of_nat n else 0x61 + of_nat (n - 10))"

definition unicodeEscape :: "16 word \<Rightarrow> jsstring" where
  "unicodeEscape c =
     [0x5C, 0x75,
      hexDigit (unat c div 4096 mod 16), hexDigit (unat c div 256 mod 16),
      hexDigit (unat c div 16 mod 16), hexDigit (unat c mod 16)]"

definition isLeadingSurrogate :: "16 word \<Rightarrow> bool" where
  "isLeadingSurrogate c \<longleftrightarrow> 0xD800 \<le> c \<and> c \<le> 0xDBFF"

definition isTrailingSurrogate :: "16 word \<Rightarrow> bool" where
  "isTrailingSurrogate c \<longleftrightarrow> 0xDC00 \<le> c \<and> c \<le> 0xDFFF"

text \<open>One code point that is a single code unit (a lone surrogate included).\<close>

definition quoteUnit :: "16 word \<Rightarrow> jsstring" where
  "quoteUnit c =
     (if c = 0x08 then [0x5C, 0x62]
      else if c = 0x09 then [0x5C, 0x74]
      else if c = 0x0A then [0x5C, 0x6E]
      else if c = 0x0C then [0x5C, 0x66]
      else if c = 0x0D then [0x5C, 0x72]
      else if c = 0x22 then [0x5C, 0x22]
      else if c = 0x5C then [0x5C, 0x5C]
      else if c < 0x20 \<or> isLeadingSurrogate c \<or> isTrailingSurrogate c then unicodeEscape c
      else [c])"

fun quoteUnits :: "jsstring \<Rightarrow> jsstring" where
  "quoteUnits [] = []"
| "quoteUnits [c] = quoteUnit c"
| "quoteUnits (c # d # cs) =
     (if isLeadingSurrogate c \<and> isTrailingSurrogate d then c # d # quoteUnits cs
      else quoteUnit c @ quoteUnits (d # cs))"

definition QuoteJSONString :: "jsstring \<Rightarrow> jsstring" where
  "QuoteJSONString s = [0x22] @ quoteUnits s @ [0x22]"

fun joinComma :: "jsstring list \<Rightarrow> jsstring" where
  "joinComma [] = []"
| "joinComma [p] = p"
| "joinComma (p # q # ps) = p @ [0x2C] @ joinComma (q # ps)"

definition serializeProperty :: "string \<times> jsstring option \<Rightarrow> jsstring list" where
  "serializeProperty kv =
     (case snd kv of
        None \<Rightarrow> []
      | Some v \<Rightarrow> [QuoteJSONString (js (fst kv)) @ [0x3A] @ QuoteJSONString v])"

definition JSON_stringify :: "(string \<times> jsstring option) list \<Rightarrow> jsstring" where
  "JSON_stringify obj = [0x7B] @ joinComma (concat (map serializeProperty obj)) @ [0x7D]"

section \<open>Messages and the stream context\<close>

text \<open>
  The \<^verbatim>\<open>Message\<close> type comes from the LangGraph SDK. The view reads and writes the
  fields \<^verbatim>\<open>id\<close>, \<^verbatim>\<open>type\<close> and \<^verbatim>\<open>content\<close>; \<^verbatim>\<open>tool_calls\<close> (the ids of the calls an
  assistant message makes) and \<^verbatim>\<open>tool_call_id\<close> (the call a tool message answers) are what
  tool-call reconciliation is about.
\<close>

datatype message_type = Human | Ai | Tool | System

record message =
  msg_id :: "jsstring option"
  m_type :: message_type
  content :: jsstring
  tool_calls :: "jsstring list"
  tool_call_id :: "jsstring option"

datatype Checkpoint = Checkpoint jsstring

datatype 'a nullable = Undefined | Null | Defined 'a

text \<open>\<^verbatim>\<open>stream.error\<close>, read through \<^verbatim>\<open>(stream.error as any).message\<close>.\<close>

datatype stream_error = StreamError (err_message: "jsstring option")

text \<open>
  The state object of the stream (\<^verbatim>\<open>prev\<close> in the optimistic projections): its
  \<^verbatim>\<open>messages\<close> key and the other keys, which \<^verbatim>\<open>...prev\<close> copies.
\<close>

record stream_values =
  v_messages :: "message list option"
  v_other :: "(string \<times> jsstring) list"

text \<open>
  The \<^verbatim>\<open>optimisticValues\<close> closures, as data: the variables each closure captures.
  \<open>AppendMessages toolMessages newHumanMessage\<close> is the closure of \<^verbatim>\<open>handleSubmit\<close> and
  of \<^verbatim>\<open>handleControlSubmit\<close>, \<open>SliceMessages lastAiMessageIndex\<close> the one of
  \<^verbatim>\<open>handleRegenerate\<close>.
\<close>

datatype optimistic =
    AppendMessages "message list" message
  | SliceMessages int

text \<open>\<^verbatim>\<open>Array.prototype.slice(0, end)\<close>: a negative \<open>end\<close> counts from the end.\<close>

definition slice0 :: "'a list \<Rightarrow> int \<Rightarrow> 'a list" where
  "slice0 xs e =
     (let n = int (length xs);
          k = (if e < 0 then max (n + e) 0 else min e n)
      in take (nat k) xs)"

definition prev_messages :: "stream_values option \<Rightarrow> message list option" where
  "prev_messages prev = (case prev of None \<Rightarrow> None | Some p \<Rightarrow> v_messages p)"

definition prev_other :: "stream_values option \<Rightarrow> (string \<times> jsstring) list" where
  "prev_other prev = (case prev of None \<Rightarrow> [] | Some p \<Rightarrow> v_other p)"

fun optimisticValues :: "optimistic \<Rightarrow> stream_values option \<Rightarrow> stream_values" where
  "optimisticValues (AppendMessages toolMessages newHumanMessage) prev =
     \<lparr>v_messages =
        Some ((case prev_messages prev of None \<Rightarrow> [] | Some ms \<Rightarrow> ms)
              @ toolMessages @ [newHumanMessage]),
      v_other = prev_other prev\<rparr>"
| "optimisticValues (SliceMessages lastAiMessageIndex) prev =
     \<lparr>v_messages =
        Some (case prev_messages prev of None \<Rightarrow> []
              | Some ms \<Rightarrow> slice0 ms lastAiMessageIndex),
      v_other = prev_other prev\<rparr>"

text \<open>One call of \<^verbatim>\<open>stream.submit(values, options)\<close>.\<close>

record submit_call =
  sc_messages :: "message list option"
  sc_checkpoint :: "Checkpoint nullable"
  sc_streamMode :: "string list"
  sc_optimisticValues :: optimistic

text \<open>
  The stream context: what the provider exposes, and the calls of \<^verbatim>\<open>submit\<close> it has
  received, oldest first. The message list is an option, \<open>None\<close> being \<^verbatim>\<open>undefined\<close>.
\<close>

record stream_ctx =
  messages :: "message list option"
  isLoading :: bool
  error :: "stream_error option"
  submitCalls :: "submit_call list"

datatype toast = ToastError string "jsstring option"

text \<open>
  The two notifications of the view: \<^verbatim>\<open>toast.error("Please fill in all fields ...")\<close> of
  the visualization tool, and \<^verbatim>\<open>toast.error("An error occurred. Please try again.", ...)\<close>
  of the error effect, whose description shows the error's message.
\<close>

definition fillInAllFields :: toast where
  "fillInAllFields = ToastError ''Please fill in all fields for the LLM Visualization tool.'' None"

definition errorOccurred :: "jsstring \<Rightarrow> toast" where
  "errorOccurred m = ToastError ''An error occurred. Please try again.'' (Some m)"

text \<open>
  The Thread view: the stream, the query parameters, the \<^verbatim>\<open>useState\<close> slots, the two
  refs, and the notifications and console errors raised so far.
\<close>

record thread =
  stream :: stream_ctx
  threadId :: "jsstring option"
  chatHistoryOpen :: "bool option"
  hideToolCalls :: "bool option"
  input :: jsstring
  firstTokenReceived :: bool
  llmVizModel :: "jsstring option"
  llmVizLayer :: "jsstring option"
  llmVizHead :: "jsstring option"
  llmVizControlText :: jsstring
  selectedToolId :: "jsstring option"
  lastError :: "jsstring option"
  prevMessageLength :: int
  toasts :: "toast list"
  consoleErrors :: "string list"

datatype js_error = TypeError

text \<open>The call \<^verbatim>\<open>stream.submit(values, options)\<close> on the stream of the view.\<close>

definition submit :: "submit_call \<Rightarrow> thread \<Rightarrow> thread" where
  "submit c t = t\<lparr>stream := (stream t)\<lparr>submitCalls := submitCalls (stream t) @ [c]\<rparr>\<rparr>"

section \<open>The visualization tool\<close>

text \<open>
  The props of \<^verbatim>\<open>LLMVizTool\<close> that its submit handler reads. The props \<^verbatim>\<open>stream\<close> and
  \<^verbatim>\<open>setFirstTokenReceived\<close> are the stream and the setter of the view, so the handler
  acts on the view's state. \<open>llmVizToolProps\<close> is how \<^verbatim>\<open>Thread\<close> passes them.
\<close>

record LLMVizToolProps =
  parentIsLoading :: bool
  selectedModel :: "jsstring option"
  selectedLayer :: "jsstring option"
  selectedHead :: "jsstring option"
  controlText :: jsstring

definition llmVizToolProps :: "thread \<Rightarrow> LLMVizToolProps" where
  "llmVizToolProps t =
     \<lparr>parentIsLoading = isLoading (stream t),
      selectedModel = llmVizModel t,
      selectedLayer = llmVizLayer t,
      selectedHead = llmVizHead t,
      controlText = llmVizControlText t\<rparr>"

definition vizContent :: "LLMVizToolProps \<Rightarrow> jsstring" where
  "vizContent p =
     JSON_stringify
       [(''tool'', Some (js ''llm_visualization'')),
        (''model'', selectedModel p),
        (''layer'', selectedLayer p),
        (''head'', selectedHead p),
        (''text'', Some (controlText p))]"

definition humanMessage :: "jsstring \<Rightarrow> jsstring \<Rightarrow> message" where
  "humanMessage uuid c =
     \<lparr>msg_id = Some uuid, m_type = Human, content = c, tool_calls = [], tool_call_id = None\<rparr>"

text \<open>
  \<^verbatim>\<open>handleControlSubmit\<close> of \<^verbatim>\<open>LLMVizTool\<close> (the inline copy and the one of
  \<^verbatim>\<open>tools/llm-visualizer.tsx\<close> are the same code). The helper
  \<^verbatim>\<open>ensureToolCallsHaveResponses\<close> lives in another module and is a parameter; so is the
  value that the call \<^verbatim>\<open>uuidv4()\<close> returns.
\<close>

definition handleControlSubmit ::
  "(message list option \<Rightarrow> message list) \<Rightarrow> jsstring \<Rightarrow> LLMVizToolProps \<Rightarrow> thread
     \<Rightarrow> js_error + thread" where
  "handleControlSubmit ensureToolCallsHaveResponses uuidv4 p t =
     (if parentIsLoading p then Inr t
      else
        let t1 = t\<lparr>firstTokenReceived := False\<rparr> in
        if \<not> truthy_opt (selectedModel p) \<or> \<not> truthy_opt (selectedLayer p)
           \<or> \<not> truthy_opt (selectedHead p) \<or> \<not> truthy (trim (controlText p))
        then
          Inr (t1\<lparr>consoleErrors := consoleErrors t1
                     @ [''LLMVizTool: Missing required fields for submission.''],
                   toasts := toasts t1 @ [fillInAllFields]\<rparr>)
        else
          let messageContent = vizContent p;
              newHumanMessage = humanMessage uuidv4 messageContent;
              toolMessages = ensureToolCallsHaveResponses (messages (stream t1))
          in Inr (submit
                    \<lparr>sc_messages = Some (toolMessages @ [newHumanMessage]),
                     sc_checkpoint = Undefined,
                     sc_streamMode = [''values''],
                     sc_optimisticValues = AppendMessages toolMessages newHumanMessage\<rparr>
                    t1))"


section \<open>The handlers and effects of the Thread view\<close>

text \<open>
  \<^verbatim>\<open>handleSubmit\<close>. Its first statement, \<^verbatim>\<open>e.preventDefault()\<close>, acts on the event alone
  and is left out.
\<close>

definition handleSubmit ::
  "(message list option \<Rightarrow> message list) \<Rightarrow> jsstring \<Rightarrow> thread \<Rightarrow> js_error + thread" where
  "handleSubmit ensureToolCallsHaveResponses uuidv4 t =
     (if \<not> truthy (trim (input t)) \<or> isLoading (stream t) then Inr t
      else
        let t1 = t\<lparr>firstTokenReceived := False\<rparr>;
            newHumanMessage = humanMessage uuidv4 (input t);
            toolMessages = ensureToolCallsHaveResponses (messages (stream t1));
            t2 = submit
                   \<lparr>sc_messages = Some (toolMessages @ [newHumanMessage]),
                    sc_checkpoint = Undefined,
                    sc_streamMode = [''values''],
                    sc_optimisticValues = AppendMessages toolMessages newHumanMessage\<rparr>
                   t1
        in Inr (t2\<lparr>input := []\<rparr>))"

text \<open>
  \<^verbatim>\<open>Array.prototype.findLastIndex\<close>: the indices \<open>k - 1\<close>, ..., \<open>0\<close> are tried in this
  order, and the result is \<open>-1\<close> when none satisfies the predicate.
\<close>

fun findLastIndexFrom :: "('a \<Rightarrow> bool) \<Rightarrow> 'a list \<Rightarrow> nat \<Rightarrow> int" where
  "findLastIndexFrom P xs 0 = -1"
| "findLastIndexFrom P xs (Suc k) = (if P (xs ! k) then int k else findLastIndexFrom P xs k)"

definition findLastIndex :: "('a \<Rightarrow> bool) \<Rightarrow> 'a list \<Rightarrow> int" where
  "findLastIndex P xs = findLastIndexFrom P xs (length xs)"

definition handleRegenerate :: "Checkpoint nullable \<Rightarrow> thread \<Rightarrow> js_error + thread" where
  "handleRegenerate parentCheckpoint t =
     (case messages (stream t) of
        None \<Rightarrow> Inr t
      | Some ms \<Rightarrow>
          if length ms = 0 then Inr t
          else
            let lastAiMessageIndex = findLastIndex (\<lambda>m. m_type m = Ai) ms in
            if lastAiMessageIndex = -1 then Inr t
            else
              let t1 = t\<lparr>prevMessageLength := max 0 (prevMessageLength t - 1)\<rparr>;
                  t2 = t1\<lparr>firstTokenReceived := False\<rparr>
              in Inr (submit
                        \<lparr>sc_messages = None,
                         sc_checkpoint = parentCheckpoint,
                         sc_streamMode = [''values''],
                         sc_optimisticValues = SliceMessages lastAiMessageIndex\<rparr>
                        t2))"

text \<open>
  The effect on \<^verbatim>\<open>stream.error\<close>. Its \<^verbatim>\<open>try\<close>/\<^verbatim>\<open>catch\<close> swallows every exception, so the
  effect returns a state.
\<close>

definition errorEffect :: "thread \<Rightarrow> thread" where
  "errorEffect t =
     (case error (stream t) of
        None \<Rightarrow> t\<lparr>lastError := None\<rparr>
      | Some e \<Rightarrow>
          (case err_message e of
             None \<Rightarrow> t
           | Some message \<Rightarrow>
               if \<not> truthy message \<or> lastError t = Some message then t
               else
                 (t\<lparr>lastError := Some message\<rparr>)
                   \<lparr>toasts := toasts t @ [errorOccurred message]\<rparr>))"



text \<open>
  A run of the error effect over the successive values of \<^verbatim>\<open>stream.error\<close>: each update
  is a new value of the dependency, so the effect runs once per update.
\<close>

fun errorUpdates :: "thread \<Rightarrow> stream_error option list \<Rightarrow> thread" where
  "errorUpdates t [] = t"
| "errorUpdates t (e # es) = errorUpdates (errorEffect (t\<lparr>stream := (stream t)\<lparr>error := e\<rparr>\<rparr>)) es"

section \<open>Tool-call reconciliation\<close>

text \<open>
  A tool call (of an assistant message) has a response in a list when the list holds a
  tool message whose \<^verbatim>\<open>tool_call_id\<close> is the call's id.
\<close>

definition hasResponse :: "message list \<Rightarrow> jsstring \<Rightarrow> bool" where
  "hasResponse ms tc \<longleftrightarrow> list_ex (\<lambda>r. m_type r = Tool \<and> tool_call_id r = Some tc) ms"

definition allToolCallsHaveResponses :: "message list \<Rightarrow> bool" where
  "allToolCallsHaveResponses ms \<longleftrightarrow>
     list_all (\<lambda>m. list_all (hasResponse ms) (tool_calls m)) ms"

text \<open>
  Modelled from the spec: the helper \<^verbatim>\<open>ensureToolCallsHaveResponses\<close> of
  \<^verbatim>\<open>@/lib/ensure-tool-responses\<close>, which is not among the sources. The spec: "given the
  current message list, returns a list with synthetic placeholder responses inserted for
  any tool call lacking one"; the placeholders carry the reserved internal id prefix. The
  handlers take the helper as a parameter; this definition is the instance used where a
  concrete helper is needed.
\<close>

definition placeholderResponse :: "jsstring \<Rightarrow> message" where
  "placeholderResponse tc =
     \<lparr>msg_id = Some (js ''do_not_render_'' @ tc), m_type = Tool, content = [],
      tool_calls = [], tool_call_id = Some tc\<rparr>"

definition ensureToolCallsHaveResponses_spec :: "message list option \<Rightarrow> message list" where
  "ensureToolCallsHaveResponses_spec mo =
     (case mo of
        None \<Rightarrow> []
      | Some ms \<Rightarrow>
          concat (map (\<lambda>m. m # map placeholderResponse
                                  (filter (\<lambda>tc. \<not> hasResponse ms tc) (tool_calls m))) ms))"

section \<open>Observations and concrete states\<close>

text \<open>The calls of \<^verbatim>\<open>stream.submit\<close> made between the state \<open>t\<close> and the state \<open>t'\<close>.\<close>

definition newCalls :: "thread \<Rightarrow> thread \<Rightarrow> submit_call list" where
  "newCalls t t' = drop (length (submitCalls (stream t))) (submitCalls (stream t'))"

text \<open>
  The view as it is first rendered: the initial values of the \<^verbatim>\<open>useState\<close> and
  \<^verbatim>\<open>useRef\<close> slots of \<^verbatim>\<open>Thread\<close>, over an idle stream with an empty message list.
\<close>

definition initialThread :: thread where
  "initialThread =
     \<lparr>stream = \<lparr>messages = Some [], isLoading = False, error = None, submitCalls = []\<rparr>,
      threadId = None, chatHistoryOpen = None, hideToolCalls = None,
      input = [], firstTokenReceived = False,
      llmVizModel = Some (js ''gpt2''), llmVizLayer = Some (js ''1''),
      llmVizHead = Some (js ''1''), llmVizControlText = js ''The quick brown fox.'',
      selectedToolId = None, lastError = None, prevMessageLength = 0,
      toasts = [], consoleErrors = []\<rparr>"

text \<open>An assistant message with one tool call, and a view whose list ends with it.\<close>

definition aiToolCall :: message where
  "aiToolCall =
     \<lparr>msg_id = Some (js ''a1''), m_type = Ai, content = [],
      tool_calls = [js ''call_1''], tool_call_id = None\<rparr>"

definition pendingThread :: thread where
  "pendingThread =
     initialThread\<lparr>stream := (stream initialThread)\<lparr>messages := Some [aiToolCall]\<rparr>,
                   input := js ''hi''\<rparr>"

text \<open>The list of the stream's state as a projection reads it: \<^verbatim>\<open>prev?.messages ?? []\<close>.\<close>

definition prevList :: "stream_values option \<Rightarrow> message list" where
  "prevList prev = (case prev_messages prev of None \<Rightarrow> [] | Some ms \<Rightarrow> ms)"

text \<open>An update of \<^verbatim>\<open>stream.error\<close> to an error object with the message \<open>m\<close>.\<close>

definition streamError :: "jsstring \<Rightarrow> stream_error option" where
  "streamError m = Some (StreamError (Some m))"

text \<open>The call that \<^verbatim>\<open>handleRegenerate\<close> makes, for a checkpoint and an index.\<close>

definition regenerateCall :: "Checkpoint nullable \<Rightarrow> int \<Rightarrow> submit_call" where
  "regenerateCall cp i =
     \<lparr>sc_messages = None, sc_checkpoint = cp, sc_streamMode = [''values''],
      sc_optimisticValues = SliceMessages i\<rparr>"

text \<open>The composer holding text, and holding blanks only.\<close>

definition typedThread :: thread where
  "typedThread = initialThread\<lparr>input := js '' hello ''\<rparr>"

definition blankThread :: thread where
  "blankThread = initialThread\<lparr>input := js ''   ''\<rparr>"

text \<open>
  A conversation whose last assistant message is at index 1, the view after it has been
  streamed, and the same view while a submission is in flight.
\<close>

definition aiReply :: message where
  "aiReply =
     \<lparr>msg_id = Some (js ''a2''), m_type = Ai, content = js ''hello'',
      tool_calls = [], tool_call_id = None\<rparr>"

definition conversation :: "message list" where
  "conversation =
     [humanMessage (js ''m1'') (js ''hi''), aiReply, humanMessage (js ''m3'') (js ''more'')]"

definition repliedThread :: thread where
  "repliedThread =
     initialThread\<lparr>stream := (stream initialThread)\<lparr>messages := Some conversation\<rparr>,
                   firstTokenReceived := True, prevMessageLength := 3\<rparr>"

definition loadingThread :: thread where
  "loadingThread = repliedThread\<lparr>stream := (stream repliedThread)\<lparr>isLoading := True\<rparr>\<rparr>"

text \<open>The view with a stream error, the tool's props with no model, an absent list.\<close>

definition erroredThread :: thread where
  "erroredThread =
     initialThread\<lparr>stream := (stream initialThread)\<lparr>error := streamError (js ''boom'')\<rparr>\<rparr>"

definition emptyErrorThread :: thread where
  "emptyErrorThread =
     initialThread\<lparr>stream := (stream initialThread)\<lparr>error := streamError []\<rparr>\<rparr>"





section \<open>Auxiliary facts\<close>

lemmas concrete_defs =
  initialThread_def pendingThread_def aiToolCall_def js_def
  trim_def trimStart_def trimEnd_def isWhiteSpace_def truthy_def truthy_opt_def
  handleSubmit_def handleControlSubmit_def handleRegenerate_def submit_def
  humanMessage_def newCalls_def llmVizToolProps_def
  ensureToolCallsHaveResponses_spec_def placeholderResponse_def hasResponse_def
  allToolCallsHaveResponses_def Let_def
  aiReply_def conversation_def repliedThread_def loadingThread_def
  regenerateCall_def findLastIndex_def typedThread_def blankThread_def

subsection \<open>Tool calls and responses\<close>

lemma hasResponse_iff:
  "hasResponse ms tc \<longleftrightarrow> (\<exists>r\<in>set ms. m_type r = Tool \<and> tool_call_id r = Some tc)"
  by (simp add: hasResponse_def list_ex_iff)

lemma allToolCallsHaveResponses_iff:
  "allToolCallsHaveResponses ms \<longleftrightarrow>
     (\<forall>m\<in>set ms. \<forall>tc\<in>set (tool_calls m). hasResponse ms tc)"
  by (simp add: allToolCallsHaveResponses_def list_all_iff)

text \<open>A message without tool calls, appended, leaves no call unanswered.\<close>

lemma allToolCallsHaveResponses_snoc:
  assumes "allToolCallsHaveResponses ms" and "tool_calls h = []"
  shows "allToolCallsHaveResponses (ms @ [h])"
  using assms by (auto simp: allToolCallsHaveResponses_iff hasResponse_iff)

text \<open>The helper as the spec describes it meets its contract on every list.\<close>

lemma ensure_spec_contract:
  "allToolCallsHaveResponses (ensureToolCallsHaveResponses_spec mo)"
proof (cases mo)
  case None
  then show ?thesis
    by (simp add: ensureToolCallsHaveResponses_spec_def allToolCallsHaveResponses_def)
next
  case (Some ms)
  let ?out = "ensureToolCallsHaveResponses_spec (Some ms)"
  have sub: "set ms \<subseteq> set ?out"
    by (auto simp: ensureToolCallsHaveResponses_spec_def)
  have mem: "m' \<in> set ?out \<Longrightarrow> m' \<in> set ms \<or> tool_calls m' = []" for m'
    by (auto simp: ensureToolCallsHaveResponses_spec_def placeholderResponse_def)
  have ph: "m \<in> set ms \<Longrightarrow> tc \<in> set (tool_calls m) \<Longrightarrow> \<not> hasResponse ms tc
              \<Longrightarrow> placeholderResponse tc \<in> set ?out" for m tc
    by (auto simp: ensureToolCallsHaveResponses_spec_def)
  have "hasResponse ?out tc" if "m \<in> set ?out" "tc \<in> set (tool_calls m)" for m tc
  proof -
    from that mem have m: "m \<in> set ms" by fastforce
    show ?thesis
    proof (cases "hasResponse ms tc")
      case True
      then show ?thesis using sub by (auto simp: hasResponse_iff)
    next
      case False
      from ph [OF m that(2) False] show ?thesis
        unfolding hasResponse_iff by (rule bexI [rotated]) (simp add: placeholderResponse_def)
    qed
  qed
  then show ?thesis using Some by (simp add: allToolCallsHaveResponses_iff)
qed

subsection \<open>findLastIndex and slice\<close>

lemma findLastIndexFrom_none:
  "findLastIndexFrom P xs k = -1 \<longleftrightarrow> (\<forall>j<k. \<not> P (xs ! j))"
  by (induction k) (auto simp: less_Suc_eq)

lemma findLastIndexFrom_found:
  "findLastIndexFrom P xs k \<noteq> -1 \<Longrightarrow>
     \<exists>i<k. findLastIndexFrom P xs k = int i \<and> P (xs ! i)
        \<and> (\<forall>j. i < j \<and> j < k \<longrightarrow> \<not> P (xs ! j))"
proof (induction k)
  case 0
  then show ?case by simp
next
  case (Suc k)
  show ?case
  proof (cases "P (xs ! k)")
    case True
    then show ?thesis by (auto simp: less_Suc_eq)
  next
    case False
    with Suc obtain i where "i < k" "findLastIndexFrom P xs k = int i" "P (xs ! i)"
      "\<forall>j. i < j \<and> j < k \<longrightarrow> \<not> P (xs ! j)" by auto
    with False show ?thesis by (auto simp: less_Suc_eq intro!: exI [of _ i])
  qed
qed

lemma findLastIndex_none:
  "findLastIndex P xs = -1 \<longleftrightarrow> (\<forall>x\<in>set xs. \<not> P x)"
  by (simp add: findLastIndex_def findLastIndexFrom_none all_set_conv_all_nth)

lemma findLastIndex_found:
  assumes "\<exists>x\<in>set xs. P x"
  shows "\<exists>i<length xs. findLastIndex P xs = int i \<and> P (xs ! i)
           \<and> (\<forall>j. i < j \<and> j < length xs \<longrightarrow> \<not> P (xs ! j))"
  using assms findLastIndexFrom_found [of P xs "length xs"] findLastIndex_none [of P xs]
  by (auto simp: findLastIndex_def)

lemma slice0_nat: "slice0 xs (int i) = take i xs"
  by (auto simp: slice0_def Let_def min_def)

subsection \<open>The branches of the handlers\<close>

lemma handleControlSubmit_loading:
  "parentIsLoading p \<Longrightarrow> handleControlSubmit ens uuid p t = Inr t"
  by (simp add: handleControlSubmit_def)

lemma handleControlSubmit_invalid:
  assumes "\<not> parentIsLoading p"
    and "\<not> truthy_opt (selectedModel p) \<or> \<not> truthy_opt (selectedLayer p)
         \<or> \<not> truthy_opt (selectedHead p) \<or> \<not> truthy (trim (controlText p))"
  shows "handleControlSubmit ens uuid p t =
           Inr (t\<lparr>firstTokenReceived := False,
                  consoleErrors := consoleErrors t
                     @ [''LLMVizTool: Missing required fields for submission.''],
                  toasts := toasts t @ [fillInAllFields]\<rparr>)"
  using assms by (simp add: handleControlSubmit_def Let_def)

lemma unset_is_invalid:
  assumes "selectedModel p = None \<or> selectedLayer p = None \<or> selectedHead p = None
         \<or> trim (controlText p) = []"
  shows "\<not> truthy_opt (selectedModel p) \<or> \<not> truthy_opt (selectedLayer p)
         \<or> \<not> truthy_opt (selectedHead p) \<or> \<not> truthy (trim (controlText p))"
  using assms by (auto simp: truthy_opt_def truthy_def)

lemma handleControlSubmit_valid:
  assumes "\<not> parentIsLoading p"
    and "truthy_opt (selectedModel p)" "truthy_opt (selectedLayer p)"
        "truthy_opt (selectedHead p)" "truthy (trim (controlText p))"
  shows "handleControlSubmit ens uuid p t =
           Inr (submit
                  \<lparr>sc_messages = Some (ens (messages (stream t))
                                         @ [humanMessage uuid (vizContent p)]),
                   sc_checkpoint = Undefined,
                   sc_streamMode = [''values''],
                   sc_optimisticValues =
                     AppendMessages (ens (messages (stream t)))
                       (humanMessage uuid (vizContent p))\<rparr>
                  (t\<lparr>firstTokenReceived := False\<rparr>))"
  using assms by (simp add: handleControlSubmit_def Let_def)

lemma handleSubmit_rejected:
  "trim (input t) = [] \<or> isLoading (stream t) \<Longrightarrow> handleSubmit ens uuid t = Inr t"
  by (auto simp: handleSubmit_def truthy_def)

lemma handleSubmit_accepted:
  assumes "trim (input t) \<noteq> []" and "\<not> isLoading (stream t)"
  shows "handleSubmit ens uuid t =
           Inr (t\<lparr>stream := (stream t)\<lparr>submitCalls := submitCalls (stream t) @
                    [\<lparr>sc_messages = Some (ens (messages (stream t))
                                           @ [humanMessage uuid (input t)]),
                      sc_checkpoint = Undefined,
                      sc_streamMode = [''values''],
                      sc_optimisticValues =
                        AppendMessages (ens (messages (stream t)))
                          (humanMessage uuid (input t))\<rparr>]\<rparr>,
                  firstTokenReceived := False,
                  input := []\<rparr>)"
  using assms by (simp add: handleSubmit_def Let_def truthy_def submit_def)

lemma handleRegenerate_noop:
  assumes "messages (stream t) = None \<or> messages (stream t) = Some []
           \<or> (\<exists>ms. messages (stream t) = Some ms \<and> (\<forall>m\<in>set ms. m_type m \<noteq> Ai))"
  shows "handleRegenerate cp t = Inr t"
  using assms
  by (auto simp: handleRegenerate_def Let_def findLastIndex_none split: option.splits)

lemma handleRegenerate_submits:
  assumes "messages (stream t) = Some ms" and "\<exists>m\<in>set ms. m_type m = Ai"
  shows "\<exists>i<length ms. m_type (ms ! i) = Ai
            \<and> (\<forall>j. i < j \<and> j < length ms \<longrightarrow> m_type (ms ! j) \<noteq> Ai)
            \<and> handleRegenerate cp t =
                Inr (t\<lparr>stream := (stream t)\<lparr>submitCalls := submitCalls (stream t)
                                                @ [regenerateCall cp (int i)]\<rparr>,
                       firstTokenReceived := False,
                       prevMessageLength := max 0 (prevMessageLength t - 1)\<rparr>)"
proof -
  from findLastIndex_found [of ms "\<lambda>m. m_type m = Ai"] assms(2)
  obtain i where i: "i < length ms" "findLastIndex (\<lambda>m. m_type m = Ai) ms = int i"
    "m_type (ms ! i) = Ai" "\<forall>j. i < j \<and> j < length ms \<longrightarrow> m_type (ms ! j) \<noteq> Ai"
    by auto
  from assms(2) have "ms \<noteq> []" by auto
  with assms(1) i(2) have "handleRegenerate cp t =
                Inr (t\<lparr>stream := (stream t)\<lparr>submitCalls := submitCalls (stream t)
                                                @ [regenerateCall cp (int i)]\<rparr>,
                       firstTokenReceived := False,
                       prevMessageLength := max 0 (prevMessageLength t - 1)\<rparr>)"
    by (simp add: handleRegenerate_def Let_def submit_def regenerateCall_def)
  with i show ?thesis by blast
qed

subsection \<open>The error effect\<close>

lemma errorEffect_cleared:
  "error (stream t) = None \<Longrightarrow> errorEffect t = t\<lparr>lastError := None\<rparr>"
  by (simp add: errorEffect_def)

lemma errorEffect_repeated:
  "error (stream t) = streamError m \<Longrightarrow> lastError t = Some m \<Longrightarrow> errorEffect t = t"
  by (simp add: errorEffect_def streamError_def)

lemma errorEffect_falsy:
  "error (stream t) = Some (StreamError mo) \<Longrightarrow> \<not> truthy_opt mo \<Longrightarrow> errorEffect t = t"
  by (simp add: errorEffect_def truthy_opt_def split: option.splits)

lemma errorEffect_new:
  "error (stream t) = streamError m \<Longrightarrow> m \<noteq> [] \<Longrightarrow> lastError t \<noteq> Some m \<Longrightarrow>
     errorEffect t = t\<lparr>lastError := Some m, toasts := toasts t @ [errorOccurred m]\<rparr>"
  by (simp add: errorEffect_def truthy_def streamError_def)

lemma errorUpdates_toasts_same:
  assumes "m \<noteq> []" and "lastError t \<noteq> Some m"
  shows "toasts (errorUpdates t [streamError m, streamError m]) = toasts t @ [errorOccurred m]"
  using assms by (simp add: streamError_def errorEffect_def truthy_def)

lemma errorUpdates_toasts_different:
  assumes "m \<noteq> []" and "m' \<noteq> []" and "m \<noteq> m'" and "lastError t \<noteq> Some m"
  shows "toasts (errorUpdates t [streamError m, streamError m'])
           = toasts t @ [errorOccurred m, errorOccurred m']"
  using assms by (simp add: streamError_def errorEffect_def truthy_def)

lemma errorUpdates_toasts_cleared:
  assumes "m \<noteq> []" and "lastError t \<noteq> Some m"
  shows "toasts (errorUpdates t [streamError m, None, streamError m])
           = toasts t @ [errorOccurred m, errorOccurred m]"
  using assms by (simp add: streamError_def errorEffect_def truthy_def)

subsection \<open>The content of a visualization request\<close>

lemma quoteUnits_literals:
  "quoteUnits (js ''tool'') = js ''tool''"
  "quoteUnits (js ''model'') = js ''model''"
  "quoteUnits (js ''layer'') = js ''layer''"
  "quoteUnits (js ''head'') = js ''head''"
  "quoteUnits (js ''text'') = js ''text''"
  "quoteUnits (js ''llm_visualization'') = js ''llm_visualization''"
  by (simp_all add: js_def quoteUnit_def isLeadingSurrogate_def isTrailingSurrogate_def)

lemma vizContent_shape:
  assumes "selectedModel p = Some m" "selectedLayer p = Some l" "selectedHead p = Some h"
  shows "vizContent p =
           js ''{\"tool\":\"llm_visualization\",\"model\":'' @ QuoteJSONString m
           @ js '',\"layer\":'' @ QuoteJSONString l
           @ js '',\"head\":'' @ QuoteJSONString h
           @ js '',\"text\":'' @ QuoteJSONString (controlText p) @ js ''}''"
  using assms
  by (simp add: vizContent_def JSON_stringify_def serializeProperty_def QuoteJSONString_def
        quoteUnits_literals) (simp add: js_def)

subsection \<open>An empty message list raises nothing\<close>


section \<open>The claims\<close>

subsection \<open>C1: what is handed to the stream\<close>

text \<open>
  C1. Every call of \<^verbatim>\<open>stream.submit\<close> that the composer's \<^verbatim>\<open>handleSubmit\<close> or the
  visualization tool's \<^verbatim>\<open>handleControlSubmit\<close> makes hands over exactly
  \<^verbatim>\<open>ensureToolCallsHaveResponses(stream.messages)\<close> followed by the one new human message
  (whose id is the value of \<^verbatim>\<open>uuidv4()\<close>); and when the helper's result has a response for
  every tool call, so has the list handed over.
\<close>

theorem submitted_list_is_reconciled:
  assumes "handleSubmit ens uuid t = Inr t' \<or> handleControlSubmit ens uuid p t = Inr t'"
    and "c \<in> set (newCalls t t')"
  shows "\<exists>h. m_type h = Human \<and> msg_id h = Some uuid
            \<and> sc_messages c = Some (ens (messages (stream t)) @ [h])
            \<and> (allToolCallsHaveResponses (ens (messages (stream t)))
                 \<longrightarrow> allToolCallsHaveResponses (ens (messages (stream t)) @ [h]))"
  using assms
  by (auto simp: handleSubmit_def handleControlSubmit_def Let_def newCalls_def submit_def
        humanMessage_def split: if_splits intro!: allToolCallsHaveResponses_snoc)

text \<open>
  At a list that ends with an unanswered tool call, with the helper as the spec describes
  it: the list handed over holds the call, its placeholder response and the new message.
\<close>

theorem submitted_list_is_reconciled_witness:
  "handleSubmit ensureToolCallsHaveResponses_spec (js ''u1'') pendingThread
     = Inr (projr (handleSubmit ensureToolCallsHaveResponses_spec (js ''u1'') pendingThread))
   \<and> newCalls pendingThread
        (projr (handleSubmit ensureToolCallsHaveResponses_spec (js ''u1'') pendingThread))
      = [\<lparr>sc_messages = Some [aiToolCall, placeholderResponse (js ''call_1''),
                               humanMessage (js ''u1'') (js ''hi'')],
          sc_checkpoint = Undefined, sc_streamMode = [''values''],
          sc_optimisticValues =
            AppendMessages [aiToolCall, placeholderResponse (js ''call_1'')]
              (humanMessage (js ''u1'') (js ''hi''))\<rparr>]
   \<and> \<not> allToolCallsHaveResponses [aiToolCall]
   \<and> allToolCallsHaveResponses
        [aiToolCall, placeholderResponse (js ''call_1''), humanMessage (js ''u1'') (js ''hi'')]"
  using submitted_list_is_reconciled [of ensureToolCallsHaveResponses_spec "js ''u1''"
      pendingThread
      "projr (handleSubmit ensureToolCallsHaveResponses_spec (js ''u1'') pendingThread)"
      "llmVizToolProps pendingThread"
      "hd (newCalls pendingThread
        (projr (handleSubmit ensureToolCallsHaveResponses_spec (js ''u1'') pendingThread)))"]
  by (simp add: concrete_defs)

subsection \<open>C2: a missing field\<close>

text \<open>
  C2. When the visualization tool's submit handler runs while not loading and the model,
  the layer or the head is unset, or the control text is empty after trimming, the handler
  returns normally (no exception), the error notification has been shown, and
  \<^verbatim>\<open>stream.submit\<close> has not been called.
\<close>

theorem viz_submit_missing_field_notifies:
  assumes "\<not> parentIsLoading p"
    and "selectedModel p = None \<or> selectedLayer p = None \<or> selectedHead p = None
         \<or> trim (controlText p) = []"
  shows "\<exists>t'. handleControlSubmit ens uuid p t = Inr t'
            \<and> toasts t' = toasts t @ [fillInAllFields]
            \<and> newCalls t t' = []"
proof -
  note unset_is_invalid [OF assms(2)]
  from handleControlSubmit_invalid [OF assms(1) this, of ens uuid t] show ?thesis
    by (simp add: newCalls_def)
qed

theorem viz_submit_missing_field_notifies_witness:
  "\<not> parentIsLoading ((llmVizToolProps initialThread)\<lparr>selectedHead := None\<rparr>)
   \<and> selectedHead ((llmVizToolProps initialThread)\<lparr>selectedHead := None\<rparr>) = None
   \<and> handleControlSubmit ensureToolCallsHaveResponses_spec (js ''u1'')
        ((llmVizToolProps initialThread)\<lparr>selectedHead := None\<rparr>) initialThread
      = Inr (initialThread\<lparr>
               consoleErrors := [''LLMVizTool: Missing required fields for submission.''],
               toasts := [fillInAllFields]\<rparr>)"
  using viz_submit_missing_field_notifies
    [of "(llmVizToolProps initialThread)\<lparr>selectedHead := None\<rparr>"
      ensureToolCallsHaveResponses_spec "js ''u1''" initialThread]
  by (simp add: concrete_defs)

subsection \<open>C3: the composer\<close>

text \<open>
  C3. \<^verbatim>\<open>handleSubmit\<close>: when the input is empty after trimming or a submission is in flight,
  nothing changes (no call of \<^verbatim>\<open>stream.submit\<close>, the input field as it was). Otherwise a
  human message is built whose id is the value of \<^verbatim>\<open>uuidv4()\<close> and whose content is the
  input; exactly one call of \<^verbatim>\<open>stream.submit\<close> is made, with the reconciled current list
  followed by that message; its optimistic projection appends both to the previous
  messages; and the input field is the empty string.
\<close>

theorem handleSubmit_behaviour:
  "(trim (input t) = [] \<or> isLoading (stream t) \<longrightarrow>
      handleSubmit ens uuid t = Inr t)
   \<and> (trim (input t) \<noteq> [] \<and> \<not> isLoading (stream t) \<longrightarrow>
      (\<exists>t' c h.
         handleSubmit ens uuid t = Inr t'
         \<and> h = \<lparr>msg_id = Some uuid, m_type = Human, content = input t,
                 tool_calls = [], tool_call_id = None\<rparr>
         \<and> newCalls t t' = [c]
         \<and> sc_messages c = Some (ens (messages (stream t)) @ [h])
         \<and> (\<forall>prev. v_messages (optimisticValues (sc_optimisticValues c) prev)
                      = Some (prevList prev @ ens (messages (stream t)) @ [h]))
         \<and> input t' = []
         \<and> t' = t\<lparr>stream := (stream t)\<lparr>submitCalls := submitCalls (stream t) @ [c]\<rparr>,
                   firstTokenReceived := False, input := []\<rparr>))"
proof (intro conjI impI)
  assume "trim (input t) = [] \<or> isLoading (stream t)"
  then show "handleSubmit ens uuid t = Inr t" by (rule handleSubmit_rejected)
next
  assume "trim (input t) \<noteq> [] \<and> \<not> isLoading (stream t)"
  then have "handleSubmit ens uuid t =
           Inr (t\<lparr>stream := (stream t)\<lparr>submitCalls := submitCalls (stream t) @
                    [\<lparr>sc_messages = Some (ens (messages (stream t))
                                           @ [humanMessage uuid (input t)]),
                      sc_checkpoint = Undefined,
                      sc_streamMode = [''values''],
                      sc_optimisticValues =
                        AppendMessages (ens (messages (stream t)))
                          (humanMessage uuid (input t))\<rparr>]\<rparr>,
                  firstTokenReceived := False,
                  input := []\<rparr>)"
    by (simp add: handleSubmit_accepted)
  then show "\<exists>t' c h.
         handleSubmit ens uuid t = Inr t'
         \<and> h = \<lparr>msg_id = Some uuid, m_type = Human, content = input t,
                 tool_calls = [], tool_call_id = None\<rparr>
         \<and> newCalls t t' = [c]
         \<and> sc_messages c = Some (ens (messages (stream t)) @ [h])
         \<and> (\<forall>prev. v_messages (optimisticValues (sc_optimisticValues c) prev)
                      = Some (prevList prev @ ens (messages (stream t)) @ [h]))
         \<and> input t' = []
         \<and> t' = t\<lparr>stream := (stream t)\<lparr>submitCalls := submitCalls (stream t) @ [c]\<rparr>,
                   firstTokenReceived := False, input := []\<rparr>"
    by (simp add: newCalls_def humanMessage_def prevList_def)
qed

theorem handleSubmit_behaviour_witness:
  "trim (input blankThread) = []
   \<and> handleSubmit ensureToolCallsHaveResponses_spec (js ''u1'') blankThread = Inr blankThread
   \<and> trim (input typedThread) \<noteq> [] \<and> \<not> isLoading (stream typedThread)
   \<and> handleSubmit ensureToolCallsHaveResponses_spec (js ''u1'') typedThread
      = Inr (initialThread\<lparr>stream := (stream initialThread)\<lparr>submitCalls :=
                [\<lparr>sc_messages = Some [humanMessage (js ''u1'') (js '' hello '')],
                  sc_checkpoint = Undefined, sc_streamMode = [''values''],
                  sc_optimisticValues =
                    AppendMessages [] (humanMessage (js ''u1'') (js '' hello ''))\<rparr>]\<rparr>\<rparr>)"
  using handleSubmit_behaviour [of blankThread ensureToolCallsHaveResponses_spec "js ''u1''"]
    handleSubmit_behaviour [of typedThread ensureToolCallsHaveResponses_spec "js ''u1''"]
  by (simp add: concrete_defs)

subsection \<open>C4: submissions while loading\<close>

text \<open>
  C4 says that every submit-triggering handler returns without calling
  \<^verbatim>\<open>stream.submit\<close> while a submission is in flight. \<^verbatim>\<open>handleRegenerate\<close> does not read
  the loading flag: in a loading view whose list holds an assistant message it calls
  \<^verbatim>\<open>stream.submit\<close>.
\<close>

theorem regenerate_while_loading_counterexample:
  "isLoading (stream loadingThread)
   \<and> handleRegenerate Undefined loadingThread
       = Inr (submit (regenerateCall Undefined 1)
               (loadingThread\<lparr>firstTokenReceived := False, prevMessageLength := 2\<rparr>))
   \<and> newCalls loadingThread
        (submit (regenerateCall Undefined 1)
          (loadingThread\<lparr>firstTokenReceived := False, prevMessageLength := 2\<rparr>))
       = [regenerateCall Undefined 1]"
  by (simp add: concrete_defs)

text \<open>
  C4, amended. While a submission is in flight, \<^verbatim>\<open>handleSubmit\<close> and the visualization
  tool's \<^verbatim>\<open>handleControlSubmit\<close> return without calling \<^verbatim>\<open>stream.submit\<close> and without
  changing the state; \<^verbatim>\<open>handleRegenerate\<close> has no loading guard: it calls
  \<^verbatim>\<open>stream.submit\<close> exactly when the message list holds an assistant message.
\<close>

theorem loading_guard_of_submit_handlers:
  assumes "isLoading (stream t)"
  shows "handleSubmit ens uuid t = Inr t
       \<and> handleControlSubmit ens uuid (llmVizToolProps t) t = Inr t
       \<and> (\<exists>t'. handleRegenerate cp t = Inr t'
              \<and> (newCalls t t' \<noteq> [] \<longleftrightarrow>
                   (\<exists>ms. messages (stream t) = Some ms \<and> (\<exists>m\<in>set ms. m_type m = Ai))))"
proof (intro conjI)
  from assms show "handleSubmit ens uuid t = Inr t" by (simp add: handleSubmit_rejected)
  from assms show "handleControlSubmit ens uuid (llmVizToolProps t) t = Inr t"
    by (simp add: handleControlSubmit_loading llmVizToolProps_def)
  show "\<exists>t'. handleRegenerate cp t = Inr t'
              \<and> (newCalls t t' \<noteq> [] \<longleftrightarrow>
                   (\<exists>ms. messages (stream t) = Some ms \<and> (\<exists>m\<in>set ms. m_type m = Ai)))"
  proof (cases "\<exists>ms. messages (stream t) = Some ms \<and> (\<exists>m\<in>set ms. m_type m = Ai)")
    case True
    then obtain ms where ms: "messages (stream t) = Some ms" "\<exists>m\<in>set ms. m_type m = Ai"
      by blast
    from handleRegenerate_submits [OF ms, of cp] True show ?thesis
      by (auto simp: newCalls_def)
  next
    case False
    then have "messages (stream t) = None \<or> messages (stream t) = Some []
           \<or> (\<exists>ms. messages (stream t) = Some ms \<and> (\<forall>m\<in>set ms. m_type m \<noteq> Ai))"
      by (cases "messages (stream t)") auto
    from handleRegenerate_noop [OF this, of cp] False show ?thesis
      by (simp add: newCalls_def)
  qed
qed

theorem loading_guard_of_submit_handlers_witness:
  "isLoading (stream loadingThread)
   \<and> handleSubmit ensureToolCallsHaveResponses_spec (js ''u1'') loadingThread = Inr loadingThread
   \<and> handleControlSubmit ensureToolCallsHaveResponses_spec (js ''u1'')
        (llmVizToolProps loadingThread) loadingThread = Inr loadingThread
   \<and> newCalls loadingThread (projr (handleRegenerate Undefined loadingThread))
       = [regenerateCall Undefined 1]"
  using loading_guard_of_submit_handlers
    [of loadingThread ensureToolCallsHaveResponses_spec "js ''u1''" Undefined]
  by (simp add: concrete_defs)

subsection \<open>C5: notifications of stream errors\<close>

text \<open>
  C5 says that every new distinct error message raises a notification, and that two
  different error messages yield two. The effect returns on \<^verbatim>\<open>!message\<close>: an error whose
  message is the empty string (as the one of \<^verbatim>\<open>new Error()\<close>) raises nothing. So the empty
  message followed by a different one yields one notification, not two.
\<close>

theorem empty_error_message_counterexample:
  "[] \<noteq> js ''boom''
   \<and> toasts (errorUpdates initialThread [streamError [], streamError (js ''boom'')])
       = [errorOccurred (js ''boom'')]
   \<and> toasts (errorUpdates initialThread [streamError []]) = []"
  by (simp add: streamError_def errorEffect_def truthy_def initialThread_def js_def)

text \<open>
  C5, amended. On an update of the stream's error: an error whose message is the last
  shown one raises no notification; an error whose message is not empty and is not the
  last shown one raises exactly one notification and becomes the last shown one; an error
  whose message is empty or absent changes nothing; a cleared error resets the last shown
  message. So, from a state whose last shown message is not \<open>m\<close>, and for non-empty
  messages: \<open>m\<close> twice yields one notification, \<open>m\<close> then a different \<open>m'\<close> yields two, and
  \<open>m\<close>, a cleared error, \<open>m\<close> again yields two.
\<close>

theorem error_notifications:
  "(error (stream t) = streamError m \<and> lastError t = Some m \<longrightarrow> errorEffect t = t)
   \<and> (error (stream t) = streamError m \<and> m \<noteq> [] \<and> lastError t \<noteq> Some m \<longrightarrow>
        errorEffect t = t\<lparr>lastError := Some m, toasts := toasts t @ [errorOccurred m]\<rparr>)
   \<and> (error (stream t) = Some (StreamError mo) \<and> \<not> truthy_opt mo \<longrightarrow> errorEffect t = t)
   \<and> (error (stream t) = None \<longrightarrow> errorEffect t = t\<lparr>lastError := None\<rparr>)
   \<and> (m \<noteq> [] \<and> lastError t \<noteq> Some m \<longrightarrow>
        toasts (errorUpdates t [streamError m, streamError m]) = toasts t @ [errorOccurred m])
   \<and> (m \<noteq> [] \<and> m' \<noteq> [] \<and> m \<noteq> m' \<and> lastError t \<noteq> Some m \<longrightarrow>
        toasts (errorUpdates t [streamError m, streamError m'])
          = toasts t @ [errorOccurred m, errorOccurred m'])
   \<and> (m \<noteq> [] \<and> lastError t \<noteq> Some m \<longrightarrow>
        toasts (errorUpdates t [streamError m, None, streamError m])
          = toasts t @ [errorOccurred m, errorOccurred m])"
  by (intro conjI impI)
    (simp_all add: errorEffect_repeated errorEffect_new errorEffect_falsy errorEffect_cleared
       errorUpdates_toasts_same errorUpdates_toasts_different errorUpdates_toasts_cleared)

theorem error_notifications_witness:
  "errorEffect (erroredThread\<lparr>lastError := Some (js ''boom'')\<rparr>)
     = erroredThread\<lparr>lastError := Some (js ''boom'')\<rparr>
   \<and> errorEffect erroredThread
       = erroredThread\<lparr>lastError := Some (js ''boom''),
                        toasts := [errorOccurred (js ''boom'')]\<rparr>
   \<and> errorEffect emptyErrorThread = emptyErrorThread
   \<and> errorEffect (initialThread\<lparr>lastError := Some (js ''boom'')\<rparr>) = initialThread
   \<and> toasts (errorUpdates initialThread [streamError (js ''boom''), streamError (js ''boom'')])
       = [errorOccurred (js ''boom'')]
   \<and> toasts (errorUpdates initialThread [streamError (js ''boom''), streamError (js ''bang'')])
       = [errorOccurred (js ''boom''), errorOccurred (js ''bang'')]
   \<and> toasts (errorUpdates initialThread
               [streamError (js ''boom''), None, streamError (js ''boom'')])
       = [errorOccurred (js ''boom''), errorOccurred (js ''boom'')]"
  using
    error_notifications [of "erroredThread\<lparr>lastError := Some (js ''boom'')\<rparr>"
      "js ''boom''" "Some []" "js ''bang''"]
    error_notifications [of erroredThread "js ''boom''" "Some []" "js ''bang''"]
    error_notifications [of emptyErrorThread "js ''boom''" "Some []" "js ''bang''"]
    error_notifications [of "initialThread\<lparr>lastError := Some (js ''boom'')\<rparr>"
      "js ''boom''" "Some []" "js ''bang''"]
    error_notifications [of initialThread "js ''boom''" "Some []" "js ''bang''"]
  by (simp add: erroredThread_def emptyErrorThread_def initialThread_def streamError_def
        js_def truthy_opt_def truthy_def)

subsection \<open>C6: regenerating\<close>

text \<open>
  C6. \<^verbatim>\<open>handleRegenerate\<close>: when the message list is absent, empty or without an
  assistant message, nothing changes. Otherwise, with \<open>i\<close> the index of the last assistant
  message, exactly one call of \<^verbatim>\<open>stream.submit\<close> is made, with no values and the supplied
  checkpoint; the first-token flag is reset; and the optimistic projection keeps the first
  \<open>i\<close> messages of the previous list, which for the current list is the prefix strictly
  before that assistant message.
\<close>

theorem handleRegenerate_behaviour:
  "(messages (stream t) = None \<or> messages (stream t) = Some []
      \<or> (\<exists>ms. messages (stream t) = Some ms \<and> (\<forall>m\<in>set ms. m_type m \<noteq> Ai))
     \<longrightarrow> handleRegenerate cp t = Inr t)
   \<and> (messages (stream t) = Some ms \<and> (\<exists>m\<in>set ms. m_type m = Ai) \<longrightarrow>
        (\<exists>i t' c.
            i < length ms \<and> m_type (ms ! i) = Ai
            \<and> (\<forall>j. i < j \<and> j < length ms \<longrightarrow> m_type (ms ! j) \<noteq> Ai)
            \<and> handleRegenerate cp t = Inr t'
            \<and> newCalls t t' = [c]
            \<and> sc_messages c = None \<and> sc_checkpoint c = cp
            \<and> firstTokenReceived t' = False
            \<and> (\<forall>prev. v_messages (optimisticValues (sc_optimisticValues c) prev)
                         = Some (take i (prevList prev)))
            \<and> v_messages (optimisticValues (sc_optimisticValues c)
                              (Some \<lparr>v_messages = Some ms, v_other = other\<rparr>))
                = Some (take i ms)
            \<and> ms = take i ms @ ms ! i # drop (Suc i) ms))"
proof (intro conjI impI)
  assume "messages (stream t) = None \<or> messages (stream t) = Some []
      \<or> (\<exists>ms. messages (stream t) = Some ms \<and> (\<forall>m\<in>set ms. m_type m \<noteq> Ai))"
  then show "handleRegenerate cp t = Inr t" by (rule handleRegenerate_noop)
next
  assume "messages (stream t) = Some ms \<and> (\<exists>m\<in>set ms. m_type m = Ai)"
  then have ms: "messages (stream t) = Some ms" "\<exists>m\<in>set ms. m_type m = Ai" by auto
  from handleRegenerate_submits [OF ms, of cp]
  obtain i where i: "i < length ms" "m_type (ms ! i) = Ai"
     "\<forall>j. i < j \<and> j < length ms \<longrightarrow> m_type (ms ! j) \<noteq> Ai"
     "handleRegenerate cp t =
                Inr (t\<lparr>stream := (stream t)\<lparr>submitCalls := submitCalls (stream t)
                                                @ [regenerateCall cp (int i)]\<rparr>,
                       firstTokenReceived := False,
                       prevMessageLength := max 0 (prevMessageLength t - 1)\<rparr>)"
    by blast
  have proj: "v_messages (optimisticValues (SliceMessages (int i)) prev)
                = Some (take i (prevList prev))" for prev
    by (simp add: prevList_def slice0_nat split: option.splits)
  have split: "ms = take i ms @ ms ! i # drop (Suc i) ms"
    using i(1) by (simp add: id_take_nth_drop [symmetric])
  show "\<exists>i t' c.
            i < length ms \<and> m_type (ms ! i) = Ai
            \<and> (\<forall>j. i < j \<and> j < length ms \<longrightarrow> m_type (ms ! j) \<noteq> Ai)
            \<and> handleRegenerate cp t = Inr t'
            \<and> newCalls t t' = [c]
            \<and> sc_messages c = None \<and> sc_checkpoint c = cp
            \<and> firstTokenReceived t' = False
            \<and> (\<forall>prev. v_messages (optimisticValues (sc_optimisticValues c) prev)
                         = Some (take i (prevList prev)))
            \<and> v_messages (optimisticValues (sc_optimisticValues c)
                              (Some \<lparr>v_messages = Some ms, v_other = other\<rparr>))
                = Some (take i ms)
            \<and> ms = take i ms @ ms ! i # drop (Suc i) ms"
    using i split proj
    by (auto simp: newCalls_def regenerateCall_def prevList_def prev_messages_def slice0_nat
          intro!: exI [of _ i])
qed

theorem handleRegenerate_behaviour_witness:
  "handleRegenerate (Defined (Checkpoint (js ''cp1''))) initialThread = Inr initialThread
   \<and> messages (stream repliedThread) = Some conversation
   \<and> handleRegenerate (Defined (Checkpoint (js ''cp1''))) repliedThread
       = Inr (repliedThread\<lparr>stream := (stream repliedThread)\<lparr>submitCalls :=
                  [regenerateCall (Defined (Checkpoint (js ''cp1''))) 1]\<rparr>,
                firstTokenReceived := False, prevMessageLength := 2\<rparr>)
   \<and> v_messages (optimisticValues (SliceMessages 1)
                    (Some \<lparr>v_messages = Some conversation, v_other = []\<rparr>))
       = Some [humanMessage (js ''m1'') (js ''hi'')]"
  using
    handleRegenerate_behaviour
      [of initialThread "Defined (Checkpoint (js ''cp1''))" conversation "[]"]
    handleRegenerate_behaviour
      [of repliedThread "Defined (Checkpoint (js ''cp1''))" conversation "[]"]
  by (simp add: concrete_defs prev_messages_def slice0_def)

subsection \<open>C7: the first-token flag on a validation failure\<close>




subsection \<open>C8: the content of the request\<close>

text \<open>
  C8. On a successful submission of the visualization tool (not loading, model, layer and
  head selected, text not empty after trimming) the content of the human message handed to
  \<^verbatim>\<open>stream.submit\<close> is the JSON text of the object with the keys tool, model, layer, head,
  text in this order, the tool being \<^verbatim>\<open>"llm_visualization"\<close> and the other values the
  selected strings and the entered text, each as a JSON string.
\<close>

theorem viz_submit_content_is_json:
  assumes "\<not> parentIsLoading p"
    and "selectedModel p = Some m" "selectedLayer p = Some l" "selectedHead p = Some h"
    and "m \<noteq> []" "l \<noteq> []" "h \<noteq> []" "trim (controlText p) \<noteq> []"
  shows "\<exists>t' c hm.
           handleControlSubmit ens uuid p t = Inr t'
           \<and> newCalls t t' = [c]
           \<and> sc_messages c = Some (ens (messages (stream t)) @ [hm])
           \<and> m_type hm = Human
           \<and> content hm =
               js ''{\"tool\":\"llm_visualization\",\"model\":'' @ QuoteJSONString m
               @ js '',\"layer\":'' @ QuoteJSONString l
               @ js '',\"head\":'' @ QuoteJSONString h
               @ js '',\"text\":'' @ QuoteJSONString (controlText p) @ js ''}''"
proof -
  from assms have "truthy_opt (selectedModel p)" "truthy_opt (selectedLayer p)"
        "truthy_opt (selectedHead p)" "truthy (trim (controlText p))"
    by (simp_all add: truthy_opt_def truthy_def)
  from handleControlSubmit_valid [OF assms(1) this, of ens uuid t]
    vizContent_shape [OF assms(2-4)]
  show ?thesis
    by (simp add: newCalls_def submit_def humanMessage_def)
qed

theorem viz_submit_content_is_json_witness:
  "\<not> parentIsLoading (llmVizToolProps initialThread)
   \<and> trim (controlText (llmVizToolProps initialThread)) \<noteq> []
   \<and> handleControlSubmit ensureToolCallsHaveResponses_spec (js ''u1'')
        (llmVizToolProps initialThread) initialThread
      = Inr (submit
               \<lparr>sc_messages = Some [humanMessage (js ''u1'')
                  (js ''{\"tool\":\"llm_visualization\",\"model\":\"gpt2\",\"layer\":\"1\",\"head\":\"1\",\"text\":\"The quick brown fox.\"}'')],
                sc_checkpoint = Undefined, sc_streamMode = [''values''],
                sc_optimisticValues = AppendMessages [] (humanMessage (js ''u1'')
                  (js ''{\"tool\":\"llm_visualization\",\"model\":\"gpt2\",\"layer\":\"1\",\"head\":\"1\",\"text\":\"The quick brown fox.\"}''))\<rparr>
               initialThread)"
  using viz_submit_content_is_json
    [of "llmVizToolProps initialThread" "js ''gpt2''" "js ''1''" "js ''1''"
      ensureToolCallsHaveResponses_spec "js ''u1''" initialThread]
  by (simp add: concrete_defs vizContent_def JSON_stringify_def serializeProperty_def
        QuoteJSONString_def quoteUnit_def isLeadingSurrogate_def isTrailingSurrogate_def)

subsection \<open>C9: an absent message list\<close>




subsection \<open>C10: the visualization tool while loading\<close>

text \<open>
  C10. When the visualization tool's submit handler runs while a submission is in flight
  (\<^verbatim>\<open>parentIsLoading\<close>), it returns the state as it was: no notification, no call of
  \<^verbatim>\<open>stream.submit\<close>, the first-token flag and the four lifted fields unchanged.
\<close>

theorem viz_submit_while_loading_is_noop:
  assumes "parentIsLoading p"
  shows "\<exists>t'. handleControlSubmit ens uuid p t = Inr t'
            \<and> t' = t
            \<and> toasts t' = toasts t \<and> newCalls t t' = []
            \<and> firstTokenReceived t' = firstTokenReceived t
            \<and> llmVizModel t' = llmVizModel t \<and> llmVizLayer t' = llmVizLayer t
            \<and> llmVizHead t' = llmVizHead t \<and> llmVizControlText t' = llmVizControlText t"
  using handleControlSubmit_loading [OF assms, of ens uuid t] by (simp add: newCalls_def)

theorem viz_submit_while_loading_is_noop_witness:
  "parentIsLoading (llmVizToolProps loadingThread)
   \<and> handleControlSubmit ensureToolCallsHaveResponses_spec (js ''u1'')
        (llmVizToolProps loadingThread) loadingThread = Inr loadingThread"
  using viz_submit_while_loading_is_noop
    [of "llmVizToolProps loadingThread" ensureToolCallsHaveResponses_spec
      "js ''u1''" loadingThread]
  by (simp add: concrete_defs)

end
